theory Spec2Isabelle
  imports Complex_Main "HOL-Library.Sublist"
begin

section \<open>Data model\<close>

text \<open>
  Python exceptions, classified the way the handlers of \<^verbatim>\<open>api.py\<close> and \<^verbatim>\<open>app.py\<close>
  tell them apart: an instance of \<^verbatim>\<open>requests.RequestException\<close> (connection errors,
  timeouts, the \<^verbatim>\<open>HTTPError\<close> of \<^verbatim>\<open>raise_for_status\<close>), a \<^verbatim>\<open>ValueError\<close>, or any
  other subclass of \<^verbatim>\<open>Exception\<close> (\<^verbatim>\<open>AttributeError\<close>, \<^verbatim>\<open>KeyError\<close>, the errors of
  the OpenAI client). The string is \<^verbatim>\<open>str(e)\<close>. A call that may raise has the result
  type \<open>exn + 'a\<close>, with \<open>Inl\<close> the raised exception.
\<close>

datatype exn = RequestException string | ValueError string | OtherException string

fun str :: "exn \<Rightarrow> string" where
  "str (RequestException m) = m"
| "str (ValueError m) = m"
| "str (OtherException m) = m"

text \<open>
  The value of a cell of a frame is a finite number; only the order of the values is used
  (\<^verbatim>\<open>max\<close>, \<^verbatim>\<open>min\<close>), so they are rationals. A timestamp is the calendar day that
  \<^verbatim>\<open>pd.to_datetime\<close> produces, as a day number; a day of \<^verbatim>\<open>datetime\<close> is a day number
  too.
\<close>

type_synonym price = rat
type_synonym timestamp = int

text \<open>
  A number of the provider's JSON as \<^verbatim>\<open>response.json()\<close> decodes it: a Python \<^verbatim>\<open>int\<close>
  for a literal such as \<^verbatim>\<open>10\<close>, a Python \<^verbatim>\<open>float\<close> for a literal such as \<^verbatim>\<open>10.0\<close> or
  \<^verbatim>\<open>30.5\<close> (given by the rational it denotes).
\<close>

datatype json_number = is_JInt: JInt int | JFloat rat

fun number_value :: "json_number \<Rightarrow> price" where
  "number_value (JInt i) = of_int i"
| "number_value (JFloat q) = q"

text \<open>
  The dtype of a numeric column. \<^verbatim>\<open>pd.DataFrame\<close> infers it over all the rows of the
  column: \<^verbatim>\<open>int64\<close> when every cell is an \<^verbatim>\<open>int\<close> (the integers of the payload are
  taken to fit 64 bits), \<^verbatim>\<open>float64\<close> as soon as one cell is a \<^verbatim>\<open>float\<close>, and then every
  cell of the column is a float, also the whole ones.
\<close>

datatype dtype = int64 | float64

definition column_dtype :: "json_number list \<Rightarrow> dtype" where
  "column_dtype cells = (if list_all is_JInt cells then int64 else float64)"

record column_dtypes =
  Open_dtype :: dtype
  High_dtype :: dtype
  Low_dtype :: dtype
  Close_dtype :: dtype
  Adjusted_Close_dtype :: dtype
  Volume_dtype :: dtype

text \<open>
  One element of the provider's \<^verbatim>\<open>historical\<close> array, with the provider's field names
  (its \<^verbatim>\<open>date\<close> is still a string; the field \<^verbatim>\<open>open\<close> is written \<open>open'\<close>, since
  \<open>open\<close> is a constant of the library).
\<close>

record provider_row =
  date :: string
  open' :: json_number
  high :: json_number
  low :: json_number
  close :: json_number
  adjClose :: json_number
  volume :: json_number

text \<open>
  One row of the \<^verbatim>\<open>DataFrame\<close> that \<^verbatim>\<open>get_stock_data\<close> returns: the index
  (the parsed \<^verbatim>\<open>date\<close>), the values of the renamed columns, and the dtype of each
  column, which every row of one frame shares and which its cells keep when rows are
  taken out of the frame. A frame is the list of its rows, in row order, over this fixed
  column schema; \<^verbatim>\<open>pd.DataFrame()\<close> is the empty list, \<^verbatim>\<open>df.empty\<close> is \<open>df = []\<close>,
  \<^verbatim>\<open>df.head(n)\<close> is \<open>take n df\<close>.
\<close>

record price_point =
  index :: timestamp
  Open :: price
  High :: price
  Low :: price
  Close :: price
  Adjusted_Close :: price
  Volume :: price
  dtypes :: column_dtypes

text \<open>A row as the date and the values it holds, without the dtypes.\<close>

definition point_values ::
  "price_point \<Rightarrow> timestamp \<times> price \<times> price \<times> price \<times> price \<times> price \<times> price" where
  "point_values p = (index p, Open p, High p, Low p, Close p, Adjusted_Close p, Volume p)"

type_synonym dataframe = "price_point list"

section \<open>Metrics Extractor (\<^verbatim>\<open>app.py\<close>, \<^verbatim>\<open>get_stock_metrics\<close>)\<close>

text \<open>
  \<^verbatim>\<open>Series.iloc[-1]\<close>, \<^verbatim>\<open>Series.max()\<close> and \<^verbatim>\<open>Series.min()\<close> on a column given as
  the list of its values. The two reductions run over the column from its first value;
  \<^verbatim>\<open>get_stock_metrics\<close> calls all three on non-empty columns only.
\<close>

definition iloc_last :: "'a list \<Rightarrow> 'a" where
  "iloc_last col = last col"

definition series_max :: "price list \<Rightarrow> price" where
  "series_max col = fold max (tl col) (hd col)"

definition series_min :: "price list \<Rightarrow> price" where
  "series_min col = fold min (tl col) (hd col)"

text \<open>The returned dictionary, as a map from its keys; \<^verbatim>\<open>{}\<close> is the empty map.\<close>

definition get_stock_metrics :: "dataframe \<Rightarrow> (string \<rightharpoonup> price)" where
  "get_stock_metrics df =
     (if df = [] then Map.empty
      else [''current_price'' \<mapsto> iloc_last (map Close df),
            ''open_price'' \<mapsto> iloc_last (map Open df),
            ''high_price'' \<mapsto> series_max (map High df),
            ''low_price'' \<mapsto> series_min (map Low df)])"

section \<open>Market Data Fetcher (\<^verbatim>\<open>api.py\<close>, \<^verbatim>\<open>get_stock_data\<close>)\<close>

definition FMP_BASE_URL :: string where
  "FMP_BASE_URL = ''https://financialmodelingprep.com/api/v3''"

text \<open>
  The decoded body \<^verbatim>\<open>data = response.json()\<close>: a JSON object, with the array under its
  key \<^verbatim>\<open>historical\<close> when it has one, or a JSON value that is not an object, named by
  its Python type (\<^verbatim>\<open>list\<close>, \<^verbatim>\<open>str\<close>, ...).
\<close>

datatype json_data = Object "provider_row list option" | NonObject string

text \<open>
  A \<^verbatim>\<open>requests.Response\<close>: \<^verbatim>\<open>raise_for_status()\<close> raises \<^verbatim>\<open>HTTPError\<close> (a
  \<^verbatim>\<open>RequestException\<close>) with the given text on an error status, and \<^verbatim>\<open>json()\<close> returns
  the decoded body or raises.
\<close>

record http_response =
  raise_for_status :: "string option"
  json :: "exn + json_data"

text \<open>The request of the OpenAI client: its configuration and the arguments of \<^verbatim>\<open>create\<close>.\<close>

record message =
  role :: string
  content :: string

record chat_request =
  client_api_key :: string
  client_base_url :: string
  client_timeout :: nat
  model :: string
  request_messages :: "message list"
  max_tokens :: nat
  stream :: bool

text \<open>
  What \<^verbatim>\<open>create\<close> returns: \<^verbatim>\<open>None\<close> (a falsy response), an object without the attribute
  \<^verbatim>\<open>choices\<close>, or a completion, given by the \<^verbatim>\<open>message.content\<close> of its choices.
\<close>

datatype chat_completion = NoResponse | NoChoicesAttr | Completion "string list"

text \<open>
  The libraries and services the program calls: the clock (\<^verbatim>\<open>datetime.now()\<close> as a day
  number, \<^verbatim>\<open>strftime("%Y-%m-%d")\<close>), \<^verbatim>\<open>requests.get\<close>, \<^verbatim>\<open>pd.to_datetime\<close> on one date
  string, \<^verbatim>\<open>DataFrame.to_string\<close>, and the construction of the OpenAI client followed by
  \<^verbatim>\<open>client.chat.completions.create\<close>.
\<close>

record env =
  now :: int
  strftime :: "int \<Rightarrow> string"
  requests_get :: "string \<Rightarrow> (string \<times> string) list \<Rightarrow> exn + http_response"
  to_datetime :: "string \<Rightarrow> exn + timestamp"
  to_string :: "dataframe \<Rightarrow> string"
  create :: "chat_request \<Rightarrow> exn + chat_completion"

text \<open>Lines 40 to 50: the date range and the request.\<close>

definition provider_response :: "env \<Rightarrow> string \<Rightarrow> string \<Rightarrow> exn + http_response" where
  "provider_response e key symbol =
     (let end_date = now e - 1;
          start_date = end_date - 5 * 30;
          url = FMP_BASE_URL @ ''/historical-price-full/'' @ symbol;
          params = [(''from'', strftime e start_date),
                    (''to'', strftime e end_date),
                    (''apikey'', key)]
      in requests_get e url params)"

text \<open>
  \<^verbatim>\<open>data.get('historical', [])\<close>: the default for an object without the key, an
  \<^verbatim>\<open>AttributeError\<close> for a value that is not an object.
\<close>

definition get_historical :: "json_data \<Rightarrow> exn + provider_row list" where
  "get_historical data =
     (case data of
        Object None \<Rightarrow> Inr []
      | Object (Some rows) \<Rightarrow> Inr rows
      | NonObject ty \<Rightarrow>
          Inl (OtherException ([CHR 0x27] @ ty @ [CHR 0x27] @ '' object has no attribute ''
                 @ [CHR 0x27] @ ''get'' @ [CHR 0x27])))"

text \<open>
  \<^verbatim>\<open>pd.to_datetime(df['date'])\<close> parses the column in row order and raises at the first
  string it cannot parse.
\<close>

fun to_datetime_column :: "(string \<Rightarrow> exn + timestamp) \<Rightarrow> string list \<Rightarrow> exn + timestamp list" where
  "to_datetime_column f [] = Inr []"
| "to_datetime_column f (s # ss) =
     (case f s of
        Inl x \<Rightarrow> Inl x
      | Inr t \<Rightarrow>
          (case to_datetime_column f ss of
             Inl x \<Rightarrow> Inl x
           | Inr ts \<Rightarrow> Inr (t # ts)))"

text \<open>
  \<^verbatim>\<open>pd.DataFrame(historical_data)\<close>, line 58: the dtype of each column, inferred over all
  the rows.
\<close>

definition infer_dtypes :: "provider_row list \<Rightarrow> column_dtypes" where
  "infer_dtypes rows =
     \<lparr>Open_dtype = column_dtype (map open' rows),
      High_dtype = column_dtype (map high rows),
      Low_dtype = column_dtype (map low rows),
      Close_dtype = column_dtype (map close rows),
      Adjusted_Close_dtype = column_dtype (map adjClose rows),
      Volume_dtype = column_dtype (map volume rows)\<rparr>"

text \<open>
  \<^verbatim>\<open>set_index('date')\<close> and the \<^verbatim>\<open>column_mapping\<close> of \<^verbatim>\<open>rename\<close>, on one row of the
  frame with the given column dtypes.
\<close>

definition rename_row :: "column_dtypes \<Rightarrow> timestamp \<Rightarrow> provider_row \<Rightarrow> price_point" where
  "rename_row dts t r =
     \<lparr>index = t, Open = number_value (open' r), High = number_value (high r),
      Low = number_value (low r), Close = number_value (close r),
      Adjusted_Close = number_value (adjClose r), Volume = number_value (volume r),
      dtypes = dts\<rparr>"

text \<open>The body of the \<^verbatim>\<open>try\<close> block, lines 44 to 73.\<close>

definition get_stock_data_try :: "env \<Rightarrow> string \<Rightarrow> string \<Rightarrow> exn + dataframe" where
  "get_stock_data_try e key symbol =
     (case provider_response e key symbol of
        Inl x \<Rightarrow> Inl x
      | Inr response \<Rightarrow>
          (case raise_for_status response of
             Some m \<Rightarrow> Inl (RequestException m)
           | None \<Rightarrow>
               (case json response of
                  Inl x \<Rightarrow> Inl x
                | Inr data \<Rightarrow>
                    (case get_historical data of
                       Inl x \<Rightarrow> Inl x
                     | Inr historical_data \<Rightarrow>
                         if historical_data = []
                         then Inl (ValueError (''No historical data found for symbol: '' @ symbol))
                         else
                           (case to_datetime_column (to_datetime e) (map date historical_data) of
                              Inl x \<Rightarrow> Inl x
                            | Inr ts \<Rightarrow>
                                Inr (map2 (rename_row (infer_dtypes historical_data)) ts
                                       historical_data))))))"

text \<open>
  The two handlers, lines 75 to 78: \<^verbatim>\<open>except requests.RequestException\<close> first, then
  \<^verbatim>\<open>except Exception\<close>, which also catches the \<^verbatim>\<open>ValueError\<close> raised at line 56.
\<close>

definition get_stock_data :: "env \<Rightarrow> string \<Rightarrow> string \<Rightarrow> exn + dataframe" where
  "get_stock_data e key symbol =
     (case get_stock_data_try e key symbol of
        Inr df \<Rightarrow> Inr df
      | Inl (RequestException m) \<Rightarrow> Inl (ValueError (''Failed to fetch stock data: '' @ m))
      | Inl x \<Rightarrow> Inl (ValueError (''Error processing stock data: '' @ str x)))"

section \<open>Language Model Client (\<^verbatim>\<open>api.py\<close>, \<^verbatim>\<open>deepseek_chat\<close>)\<close>

definition DEEPSEEK_BASE_URL :: string where
  "DEEPSEEK_BASE_URL = ''https://api.deepseek.com''"

definition DEEPSEEK_MODEL :: string where
  "DEEPSEEK_MODEL = ''deepseek-chat''"

definition SYSTEM_PROMPT :: string where
  "SYSTEM_PROMPT = ''You are a stock market analyst. Your role is to use this data '' @ [CHR 0x0A]
     @ ''to answer questions about the stock''"

text \<open>
  Lines 94 to 111: the client configuration and the arguments of \<^verbatim>\<open>create\<close>, with the
  system turn ahead of the caller's messages.
\<close>

definition completion_request :: "string \<Rightarrow> message list \<Rightarrow> chat_request" where
  "completion_request key msgs =
     (let full_messages = \<lparr>role = ''system'', content = SYSTEM_PROMPT\<rparr> # msgs
      in \<lparr>client_api_key = key, client_base_url = DEEPSEEK_BASE_URL,
          client_timeout = 30, model = DEEPSEEK_MODEL,
          request_messages = full_messages, max_tokens = 1000,
          stream = False\<rparr>)"

text \<open>The body of the \<^verbatim>\<open>try\<close> block, lines 93 to 118.\<close>

definition deepseek_chat_try :: "env \<Rightarrow> string \<Rightarrow> message list \<Rightarrow> exn + string" where
  "deepseek_chat_try e key msgs =
     (case create e (completion_request key msgs) of
        Inl x \<Rightarrow> Inl x
      | Inr NoResponse \<Rightarrow> Inl (ValueError ''Invalid response from API'')
      | Inr NoChoicesAttr \<Rightarrow> Inl (ValueError ''Invalid response from API'')
      | Inr (Completion []) \<Rightarrow> Inl (ValueError ''Invalid response from API'')
      | Inr (Completion (c # cs)) \<Rightarrow> Inr c)"

text \<open>
  The handler, lines 120 to 125: every \<^verbatim>\<open>Exception\<close> becomes the returned text. The
  \<^verbatim>\<open>print\<close> calls and the \<^verbatim>\<open>st.error\<close> of the handler only display; they are left out.
\<close>

definition deepseek_chat :: "env \<Rightarrow> string \<Rightarrow> message list \<Rightarrow> exn + string" where
  "deepseek_chat e key msgs =
     (case deepseek_chat_try e key msgs of
        Inr text \<Rightarrow> Inr text
      | Inl x \<Rightarrow> Inr ''Cannot connect to the API. Please try again later.'')"

section \<open>Session Orchestrator (\<^verbatim>\<open>app.py\<close>)\<close>

definition STOCK_SYMBOLS :: "string list" where
  "STOCK_SYMBOLS = [''AAPL'', ''MSFT'', ''GOOGL'', ''AMZN'', ''META'',
                    ''NVDA'', ''TSLA'', ''IBM'', ''NFLX'', ''AMD'']"

definition DEFAULT_SYMBOL :: string where
  "DEFAULT_SYMBOL = ''AAPL''"

record secrets =
  stock_api_key :: string
  deepseek_api_key :: string

text \<open>\<^verbatim>\<open>st.session_state\<close>, with the keys of \<^verbatim>\<open>init_session_state\<close>.\<close>

record session_state =
  messages :: "message list"
  current_symbol :: string
  stock_data :: dataframe
  pending_prompt :: "string option"

definition session_defaults :: session_state where
  "session_defaults =
     \<lparr>messages = [], current_symbol = DEFAULT_SYMBOL, stock_data = [], pending_prompt = None\<rparr>"

text \<open>
  What a handler leaves behind: the session state, the texts shown with \<^verbatim>\<open>st.error\<close>, and
  whether it ended in \<^verbatim>\<open>st.rerun()\<close>.
\<close>

record outcome =
  state :: session_state
  errors :: "string list"
  rerun :: bool

text \<open>
  \<^verbatim>\<open>handle_stock_selection\<close>, with the symbol the select box returns. The select box is
  built with \<^verbatim>\<open>STOCK_SYMBOLS.index(current_symbol)\<close>, a \<^verbatim>\<open>ValueError\<close> for a symbol
  that is not in the list.
\<close>

definition handle_stock_selection ::
  "env \<Rightarrow> secrets \<Rightarrow> string \<Rightarrow> session_state \<Rightarrow> exn + outcome" where
  "handle_stock_selection e sec new_symbol st =
     (if current_symbol st \<notin> set STOCK_SYMBOLS
      then Inl (ValueError ([CHR 0x27] @ current_symbol st @ [CHR 0x27] @ '' is not in list''))
      else if new_symbol \<noteq> current_symbol st
      then
        (let st1 = st\<lparr>current_symbol := new_symbol\<rparr>;
             st2 = st1\<lparr>messages := []\<rparr>
         in case get_stock_data e (stock_api_key sec) new_symbol of
              Inr df \<Rightarrow> Inr \<lparr>state = st2\<lparr>stock_data := df\<rparr>, errors = [], rerun = True\<rparr>
            | Inl x \<Rightarrow>
                Inr \<lparr>state = st2, errors = [''Failed to load data: '' @ str x], rerun = True\<rparr>)
      else Inr \<lparr>state = st, errors = [], rerun = False\<rparr>)"

text \<open>
  \<^verbatim>\<open>generate_chat_response\<close>: first its local \<^verbatim>\<open>messages\<close>, lines 178 to 183, then the
  call of \<^verbatim>\<open>deepseek_chat\<close>. The rows of \<^verbatim>\<open>head(5)\<close> keep the column dtypes of the
  whole frame, and \<^verbatim>\<open>to_string\<close> sees them.
\<close>

definition chat_messages :: "env \<Rightarrow> session_state \<Rightarrow> string \<Rightarrow> message list" where
  "chat_messages e st prompt =
     (let stock_name = current_symbol st;
          context = ''Stock data for '' @ stock_name @ '': '' @ to_string e (take 5 (stock_data st))
      in [\<lparr>role = ''user'',
           content = context @ [CHR 0x0A, CHR 0x0A] @ ''Question: '' @ prompt\<rparr>])"

definition generate_chat_response :: "env \<Rightarrow> secrets \<Rightarrow> session_state \<Rightarrow> string \<Rightarrow> exn + string" where
  "generate_chat_response e sec st prompt =
     deepseek_chat e (deepseek_api_key sec) (chat_messages e st prompt)"

text \<open>\<^verbatim>\<open>process_prompt\<close>: the user turn is appended before the response is generated.\<close>

definition process_prompt :: "env \<Rightarrow> secrets \<Rightarrow> string \<Rightarrow> session_state \<Rightarrow> outcome" where
  "process_prompt e sec prompt st =
     (let st1 = st\<lparr>messages := messages st @ [\<lparr>role = ''user'', content = prompt\<rparr>]\<rparr>
      in case generate_chat_response e sec st1 prompt of
           Inr response \<Rightarrow>
             \<lparr>state = st1\<lparr>messages := messages st1 @ [\<lparr>role = ''assistant'', content = response\<rparr>]\<rparr>,
              errors = [], rerun = True\<rparr>
         | Inl x \<Rightarrow>
             \<lparr>state = st1, errors = [''Failed to generate response. Please try again.''],
              rerun = True\<rparr>)"

section \<open>Example inputs\<close>

text \<open>
  Two rows as the provider delivers them, the newer day first, and the frame
  \<^verbatim>\<open>get_stock_data\<close> builds from them. All their numbers are integers.
\<close>

definition int_columns :: column_dtypes where
  "int_columns =
     \<lparr>Open_dtype = int64, High_dtype = int64, Low_dtype = int64, Close_dtype = int64,
      Adjusted_Close_dtype = int64, Volume_dtype = int64\<rparr>"

definition example_rows :: "provider_row list" where
  "example_rows =
     [\<lparr>date = ''2024-01-03'', open' = JInt 184, high = JInt 186, low = JInt 183,
       close = JInt 185, adjClose = JInt 185, volume = JInt 58000000\<rparr>,
      \<lparr>date = ''2024-01-02'', open' = JInt 187, high = JInt 189, low = JInt 182,
       close = JInt 186, adjClose = JInt 186, volume = JInt 82000000\<rparr>]"

definition example_frame :: dataframe where
  "example_frame =
     [\<lparr>index = 19725, Open = 184, High = 186, Low = 183, Close = 185,
       Adjusted_Close = 185, Volume = 58000000, dtypes = int_columns\<rparr>,
      \<lparr>index = 19724, Open = 187, High = 189, Low = 182, Close = 186,
       Adjusted_Close = 186, Volume = 82000000, dtypes = int_columns\<rparr>]"

text \<open>
  An environment on 2024-01-04 (day 19726 after 1970-01-01) in which the provider answers
  every request with \<open>example_rows\<close> and the model with one choice.
\<close>

definition example_env :: env where
  "example_env =
     \<lparr>now = 19726,
      strftime = (\<lambda>d. if d = 19725 then ''2024-01-03''
                      else if d = 19575 then ''2023-08-06'' else ''unused''),
      requests_get = (\<lambda>url params.
        Inr \<lparr>raise_for_status = None, json = Inr (Object (Some example_rows))\<rparr>),
      to_datetime = (\<lambda>s. if s = ''2024-01-03'' then Inr 19725
                         else if s = ''2024-01-02'' then Inr 19724
                         else Inl (ValueError (''Unknown datetime string format: '' @ s))),
      to_string = (\<lambda>df. concat (map (\<lambda>p. if Close p < Open p then ''-'' else ''+'') df)),
      create = (\<lambda>req. Inr (Completion [''The stock closed at 185.'']))\<rparr>"

definition example_secrets :: secrets where
  "example_secrets = \<lparr>stock_api_key = ''fmp-key'', deepseek_api_key = ''deepseek-key''\<rparr>"

text \<open>A session on \<^verbatim>\<open>AAPL\<close> with its series loaded and one exchange in the history.\<close>

definition example_session :: session_state where
  "example_session =
     \<lparr>messages = [\<lparr>role = ''user'', content = ''What is your role?''\<rparr>,
                  \<lparr>role = ''assistant'', content = ''I am a stock market analyst.''\<rparr>],
      current_symbol = ''AAPL'',
      stock_data = example_frame,
      pending_prompt = None\<rparr>"

text \<open>Three points whose last one holds neither the highest \<^verbatim>\<open>High\<close> nor the lowest \<^verbatim>\<open>Low\<close>.\<close>

definition three_points :: dataframe where
  "three_points =
     [\<lparr>index = 1, Open = 10, High = 12, Low = 9, Close = 11, Adjusted_Close = 11, Volume = 100,
       dtypes = int_columns\<rparr>,
      \<lparr>index = 2, Open = 11, High = 20, Low = 4, Close = 15, Adjusted_Close = 15, Volume = 300,
       dtypes = int_columns\<rparr>,
      \<lparr>index = 3, Open = 15, High = 16, Low = 13, Close = 14, Adjusted_Close = 14, Volume = 200,
       dtypes = int_columns\<rparr>]"

text \<open>
  Variants of the environment: the request to the provider times out; the provider has no
  rows for the symbol; the call of the model raises; the model answers without a choice.
\<close>

definition failing_fetch_env :: env where
  "failing_fetch_env =
     example_env\<lparr>requests_get := (\<lambda>url params. Inl (RequestException ''Connection timed out''))\<rparr>"

definition empty_series_env :: env where
  "empty_series_env =
     example_env\<lparr>requests_get := (\<lambda>url params.
       Inr \<lparr>raise_for_status = None, json = Inr (Object (Some []))\<rparr>)\<rparr>"

definition failing_chat_env :: env where
  "failing_chat_env = example_env\<lparr>create := (\<lambda>req. Inl (OtherException ''Connection error.''))\<rparr>"

definition no_choices_env :: env where
  "no_choices_env = example_env\<lparr>create := (\<lambda>req. Inr (Completion []))\<rparr>"

text \<open>
  A rendering of a frame that, as \<^verbatim>\<open>DataFrame.to_string\<close> does, prints a cell of an
  \<^verbatim>\<open>int64\<close> column as \<^verbatim>\<open>10\<close> and the same value in a \<^verbatim>\<open>float64\<close> column as \<^verbatim>\<open>10.0\<close>. It
  prints the \<^verbatim>\<open>Open\<close> column only, one cell per line, and is used on whole values below
  100 only.
\<close>

definition digit :: "nat \<Rightarrow> char" where
  "digit n = ''0123456789'' ! n"

definition decimal :: "nat \<Rightarrow> string" where
  "decimal n = (if n < 10 then [digit n] else [digit (n div 10), digit (n mod 10)])"

definition show_cell :: "dtype \<Rightarrow> price \<Rightarrow> string" where
  "show_cell dt v =
     (case dt of
        int64 \<Rightarrow> decimal (nat \<lfloor>v\<rfloor>)
      | float64 \<Rightarrow> decimal (nat \<lfloor>v\<rfloor>) @ ''.0'')"

definition show_open_column :: "dataframe \<Rightarrow> string" where
  "show_open_column df =
     concat (map (\<lambda>p. [CHR 0x0A] @ show_cell (Open_dtype (dtypes p)) (Open p)) df)"

text \<open>
  Two payloads of six rows, the newer day first, that agree on the first five rows; all the
  numbers are integers, except that the second payload has the opening price
  \<^verbatim>\<open>30.5\<close> in its sixth row, where the first has \<^verbatim>\<open>11\<close>.
\<close>

definition week_row :: "string \<Rightarrow> json_number \<Rightarrow> provider_row" where
  "week_row d opening =
     \<lparr>date = d, open' = opening, high = JInt 40, low = JInt 9, close = JInt 12,
      adjClose = JInt 12, volume = JInt 100\<rparr>"

definition week_head :: "provider_row list" where
  "week_head =
     [week_row ''2024-01-10'' (JInt 10), week_row ''2024-01-09'' (JInt 10),
      week_row ''2024-01-08'' (JInt 10), week_row ''2024-01-05'' (JInt 10),
      week_row ''2024-01-04'' (JInt 10)]"

definition payload_a :: "provider_row list" where
  "payload_a = week_head @ [week_row ''2024-01-03'' (JInt 11)]"

definition payload_b :: "provider_row list" where
  "payload_b = week_head @ [week_row ''2024-01-03'' (JFloat (61 / 2))]"

definition week_env :: "provider_row list \<Rightarrow> env" where
  "week_env payload =
     example_env
       \<lparr>requests_get := (\<lambda>url params.
          Inr \<lparr>raise_for_status = None, json = Inr (Object (Some payload))\<rparr>),
        to_datetime := (\<lambda>s.
          case map_of [(''2024-01-10'', 19732), (''2024-01-09'', 19731), (''2024-01-08'', 19730),
                       (''2024-01-05'', 19727), (''2024-01-04'', 19726), (''2024-01-03'', 19725)] s of
            Some t \<Rightarrow> Inr t
          | None \<Rightarrow> Inl (ValueError (''Unknown datetime string format: '' @ s))),
        to_string := show_open_column\<rparr>"

text \<open>The frames \<^verbatim>\<open>get_stock_data\<close> builds from the two payloads.\<close>

definition week_point :: "column_dtypes \<Rightarrow> timestamp \<Rightarrow> price \<Rightarrow> price_point" where
  "week_point dts t opening =
     \<lparr>index = t, Open = opening, High = 40, Low = 9, Close = 12, Adjusted_Close = 12,
      Volume = 100, dtypes = dts\<rparr>"

definition week_frame :: "column_dtypes \<Rightarrow> price \<Rightarrow> dataframe" where
  "week_frame dts sixth =
     [week_point dts 19732 10, week_point dts 19731 10, week_point dts 19730 10,
      week_point dts 19727 10, week_point dts 19726 10, week_point dts 19725 sixth]"

definition frame_a :: dataframe where
  "frame_a = week_frame int_columns 11"

definition frame_b :: dataframe where
  "frame_b = week_frame (int_columns\<lparr>Open_dtype := float64\<rparr>) (61 / 2)"

text \<open>
  Two sessions whose series share the column dtypes, agree on the first five rows and
  differ in the sixth.
\<close>

definition session_a :: session_state where
  "session_a = example_session\<lparr>stock_data := week_frame int_columns 11\<rparr>"

definition session_b :: session_state where
  "session_b = example_session\<lparr>stock_data := week_frame int_columns 30\<rparr>"

section \<open>Properties\<close>

subsection \<open>Metrics Extractor\<close>

lemma fold_max_Max:
  fixes x :: "'a::linorder"
  shows "fold max xs x = Max (set (x # xs))"
  by (rule Max.set_eq_fold [symmetric])

lemma fold_min_Min:
  fixes x :: "'a::linorder"
  shows "fold min xs x = Min (set (x # xs))"
  by (rule Min.set_eq_fold [symmetric])

lemma series_max_Max: "col \<noteq> [] \<Longrightarrow> series_max col = Max (set col)"
  unfolding series_max_def by (cases col) (simp_all only: list.sel fold_max_Max)

lemma series_min_Min: "col \<noteq> [] \<Longrightarrow> series_min col = Min (set col)"
  unfolding series_min_def by (cases col) (simp_all only: list.sel fold_min_Min)

text \<open>
  C8. For every non-empty series, \<^verbatim>\<open>get_stock_metrics\<close> returns as \<^verbatim>\<open>high_price\<close> the
  maximum of \<^verbatim>\<open>High\<close> over all points and as \<^verbatim>\<open>low_price\<close> the minimum of \<^verbatim>\<open>Low\<close>
  over all points, while \<^verbatim>\<open>current_price\<close> is the \<^verbatim>\<open>Close\<close> of the last point and
  \<^verbatim>\<open>open_price\<close> the \<^verbatim>\<open>Open\<close> of the last point.
\<close>

theorem get_stock_metrics_extrema_and_latest:
  assumes "df \<noteq> []"
  shows "get_stock_metrics df ''high_price'' = Some (Max (High ` set df))
       \<and> get_stock_metrics df ''low_price'' = Some (Min (Low ` set df))
       \<and> get_stock_metrics df ''current_price'' = Some (Close (last df))
       \<and> get_stock_metrics df ''open_price'' = Some (Open (last df))"
  using assms
  by (simp add: get_stock_metrics_def series_max_Max series_min_Min iloc_last_def last_map)

theorem get_stock_metrics_extrema_and_latest_witness:
  "three_points \<noteq> []
   \<and> get_stock_metrics three_points ''high_price'' = Some 20
   \<and> get_stock_metrics three_points ''low_price'' = Some 4
   \<and> get_stock_metrics three_points ''current_price'' = Some 14
   \<and> get_stock_metrics three_points ''open_price'' = Some 15"
  using get_stock_metrics_extrema_and_latest [of three_points]
  by (simp add: three_points_def)

subsection \<open>Market Data Fetcher\<close>

lemma to_datetime_column_length:
  "to_datetime_column f ss = Inr ts \<Longrightarrow> length ts = length ss"
  by (induction ss arbitrary: ts) (auto split: sum.splits)

lemma index_map2_rename_row:
  "length ts = length rows \<Longrightarrow> map index (map2 (rename_row dts) ts rows) = ts"
proof (induction ts arbitrary: rows)
  case Nil
  then show ?case by simp
next
  case (Cons t ts)
  then show ?case by (cases rows) (simp_all add: rename_row_def)
qed

text \<open>
  C1, as the code has it. For every symbol for which the provider returns a non-empty
  \<^verbatim>\<open>historical\<close> array whose date strings parse, \<^verbatim>\<open>get_stock_data\<close> returns one row
  per provider row, in the order the provider delivered them: the dates of the result
  are the parsed provider dates in provider order. Nothing sorts the rows or removes a
  repeated date.
\<close>

theorem get_stock_data_keeps_provider_order:
  assumes "provider_response e key symbol = Inr response"
    and "raise_for_status response = None"
    and "json response = Inr (Object (Some rows))"
    and "rows \<noteq> []"
    and "to_datetime_column (to_datetime e) (map date rows) = Inr ts"
  shows "get_stock_data e key symbol = Inr (map2 (rename_row (infer_dtypes rows)) ts rows)
       \<and> length (map2 (rename_row (infer_dtypes rows)) ts rows) = length rows
       \<and> map index (map2 (rename_row (infer_dtypes rows)) ts rows) = ts"
proof -
  have len: "length ts = length rows"
    using to_datetime_column_length [OF assms(5)] by simp
  have run: "get_stock_data e key symbol = Inr (map2 (rename_row (infer_dtypes rows)) ts rows)"
    using assms by (simp add: get_stock_data_def get_stock_data_try_def get_historical_def)
  have len2: "length (map2 (rename_row (infer_dtypes rows)) ts rows) = length rows"
    using len by simp
  have idx: "map index (map2 (rename_row (infer_dtypes rows)) ts rows) = ts"
    using len by (rule index_map2_rename_row)
  show ?thesis
    by (intro conjI run len2 idx)
qed

theorem get_stock_data_keeps_provider_order_witness:
  "provider_response example_env ''fmp-key'' ''AAPL''
     = Inr \<lparr>raise_for_status = None, json = Inr (Object (Some example_rows))\<rparr>
   \<and> example_rows \<noteq> []
   \<and> to_datetime_column (to_datetime example_env) (map date example_rows) = Inr [19725, 19724]
   \<and> get_stock_data example_env ''fmp-key'' ''AAPL''
       = Inr (map2 (rename_row (infer_dtypes example_rows)) [19725, 19724] example_rows)
   \<and> length (map2 (rename_row (infer_dtypes example_rows)) [19725, 19724] example_rows)
       = length example_rows
   \<and> map index (map2 (rename_row (infer_dtypes example_rows)) [19725, 19724] example_rows)
       = [19725, 19724]"
proof -
  have r: "provider_response example_env ''fmp-key'' ''AAPL''
             = Inr \<lparr>raise_for_status = None, json = Inr (Object (Some example_rows))\<rparr>"
    by (simp add: provider_response_def example_env_def)
  have s: "raise_for_status \<lparr>raise_for_status = None, json = Inr (Object (Some example_rows))\<rparr>
             = None"
    by simp
  have j: "json \<lparr>raise_for_status = None, json = Inr (Object (Some example_rows))\<rparr>
             = Inr (Object (Some example_rows))"
    by simp
  have n: "example_rows \<noteq> []"
    by (simp add: example_rows_def)
  have d: "to_datetime_column (to_datetime example_env) (map date example_rows)
             = Inr [19725, 19724]"
    by (simp add: example_env_def example_rows_def)
  show ?thesis
    using get_stock_data_keeps_provider_order [OF r s j n d] r n d by simp
qed

text \<open>
  The provider delivers the newer day first; the returned dates are then descending, not
  strictly increasing.
\<close>

theorem get_stock_data_unsorted_counterexample:
  "get_stock_data example_env ''fmp-key'' ''AAPL'' = Inr example_frame
   \<and> map index example_frame = [19725, 19724]
   \<and> \<not> sorted_wrt (<) (map index example_frame)"
  by (simp add: get_stock_data_def get_stock_data_try_def provider_response_def example_env_def
      get_historical_def example_rows_def example_frame_def rename_row_def infer_dtypes_def
      column_dtype_def int_columns_def)

lemma get_stock_data_try_nonempty: "get_stock_data_try e key symbol \<noteq> Inr []"
proof
  assume a: "get_stock_data_try e key symbol = Inr []"
  then obtain rows ts where r: "rows \<noteq> []"
    and t: "to_datetime_column (to_datetime e) (map date rows) = Inr ts"
    and z: "map2 (rename_row (infer_dtypes rows)) ts rows = []"
    by (auto simp: get_stock_data_try_def split: sum.splits option.splits if_splits)
  from t have "length ts = length rows"
    using to_datetime_column_length by fastforce
  with r z show False
    by (cases ts; cases rows) simp_all
qed

lemma get_stock_data_Inr:
  "get_stock_data e key symbol = Inr df \<longleftrightarrow> get_stock_data_try e key symbol = Inr df"
  by (auto simp: get_stock_data_def split: sum.splits exn.splits)

text \<open>
  C9. For every symbol for which the provider returns an empty historical series (the
  key \<^verbatim>\<open>historical\<close> absent or holding an empty array), \<^verbatim>\<open>get_stock_data\<close> fails: it
  raises the error carrying the message \<^verbatim>\<open>No historical data found for symbol\<close>, as
  wrapped by its own handler. It never returns an empty frame as a normal result, whatever
  the provider does.
\<close>

theorem get_stock_data_empty_series_fails:
  assumes "provider_response e key symbol = Inr response"
    and "raise_for_status response = None"
    and "json response = Inr (Object h)"
    and "h = None \<or> h = Some []"
  shows "get_stock_data e key symbol
           = Inl (ValueError (''Error processing stock data: No historical data found for symbol: ''
                              @ symbol))
       \<and> (\<forall>e' key' symbol'. get_stock_data e' key' symbol' \<noteq> Inr [])"
proof
  show "get_stock_data e key symbol
          = Inl (ValueError (''Error processing stock data: No historical data found for symbol: ''
                             @ symbol))"
    using assms by (auto simp: get_stock_data_def get_stock_data_try_def get_historical_def)
  show "\<forall>e' key' symbol'. get_stock_data e' key' symbol' \<noteq> Inr []"
    by (simp add: get_stock_data_Inr get_stock_data_try_nonempty)
qed

theorem get_stock_data_empty_series_fails_witness:
  "provider_response empty_series_env ''fmp-key'' ''IBM''
     = Inr \<lparr>raise_for_status = None, json = Inr (Object (Some []))\<rparr>
   \<and> get_stock_data empty_series_env ''fmp-key'' ''IBM''
       = Inl (ValueError ''Error processing stock data: No historical data found for symbol: IBM'')
   \<and> get_stock_data example_env ''fmp-key'' ''IBM'' \<noteq> Inr []"
proof -
  have r: "provider_response empty_series_env ''fmp-key'' ''IBM''
             = Inr \<lparr>raise_for_status = None, json = Inr (Object (Some []))\<rparr>"
    by (simp add: provider_response_def empty_series_env_def example_env_def)
  have s: "raise_for_status \<lparr>raise_for_status = None, json = Inr (Object (Some []))\<rparr> = None"
    by simp
  have j: "json \<lparr>raise_for_status = None, json = Inr (Object (Some []))\<rparr>
             = Inr (Object (Some []))"
    by simp
  have h: "Some [] = None \<or> Some ([] :: provider_row list) = Some []"
    by simp
  show ?thesis
    using get_stock_data_empty_series_fails [OF r s j h] r by simp
qed

text \<open>The three kinds of failure and the message each one carries.\<close>

lemma get_stock_data_transport_failure:
  "provider_response e key symbol = Inl (RequestException m) \<Longrightarrow>
   get_stock_data e key symbol = Inl (ValueError (''Failed to fetch stock data: '' @ m))"
  by (simp add: get_stock_data_def get_stock_data_try_def)

lemma get_stock_data_http_failure:
  "provider_response e key symbol = Inr response \<Longrightarrow> raise_for_status response = Some m \<Longrightarrow>
   get_stock_data e key symbol = Inl (ValueError (''Failed to fetch stock data: '' @ m))"
  by (simp add: get_stock_data_def get_stock_data_try_def)

lemma get_stock_data_non_object:
  "provider_response e key symbol = Inr response \<Longrightarrow> raise_for_status response = None \<Longrightarrow>
   json response = Inr (NonObject ty) \<Longrightarrow>
   \<exists>m. get_stock_data e key symbol = Inl (ValueError (''Error processing stock data: '' @ m))"
  by (simp add: get_stock_data_def get_stock_data_try_def get_historical_def)

text \<open>
  C10. Whenever \<^verbatim>\<open>get_stock_data\<close> fails, whatever the cause (the request or the HTTP
  status, an empty series, decoding or processing), the exception it raises is a
  \<^verbatim>\<open>ValueError\<close> carrying a message; the kinds of failure differ only in the text of that
  message, which starts with \<^verbatim>\<open>Failed to fetch stock data: \<close> or with
  \<^verbatim>\<open>Error processing stock data: \<close>.
\<close>

theorem get_stock_data_raises_only_ValueError:
  assumes "get_stock_data e key symbol = Inl x"
  shows "\<exists>m. x = ValueError m
           \<and> (prefix ''Failed to fetch stock data: '' m
              \<or> prefix ''Error processing stock data: '' m)"
  using assms
  by (auto simp: get_stock_data_def split: sum.splits exn.splits)

theorem get_stock_data_raises_only_ValueError_witness:
  "get_stock_data failing_fetch_env ''fmp-key'' ''AAPL''
     = Inl (ValueError ''Failed to fetch stock data: Connection timed out'')
   \<and> (\<exists>m. ValueError ''Failed to fetch stock data: Connection timed out'' = ValueError m
           \<and> (prefix ''Failed to fetch stock data: '' m
              \<or> prefix ''Error processing stock data: '' m))"
proof -
  have f: "get_stock_data failing_fetch_env ''fmp-key'' ''AAPL''
             = Inl (ValueError ''Failed to fetch stock data: Connection timed out'')"
    by (simp add: get_stock_data_def get_stock_data_try_def provider_response_def
        failing_fetch_env_def example_env_def)
  show ?thesis
    using get_stock_data_raises_only_ValueError [OF f] f by simp
qed

subsection \<open>Language Model Client\<close>

lemma deepseek_chat_never_raises: "deepseek_chat e key msgs \<noteq> Inl x"
  by (simp add: deepseek_chat_def split: sum.splits)

text \<open>
  C4. Whenever the call of the provider raises an exception, \<^verbatim>\<open>deepseek_chat\<close> does not
  propagate it: it returns the fallback text
  \<^verbatim>\<open>Cannot connect to the API. Please try again later.\<close> On no input at all does
  \<^verbatim>\<open>deepseek_chat\<close> raise past its boundary.
\<close>

theorem deepseek_chat_fallback_on_exception:
  assumes "create e (completion_request key msgs) = Inl x"
  shows "deepseek_chat e key msgs = Inr ''Cannot connect to the API. Please try again later.''
       \<and> (\<forall>e' key' msgs' x'. deepseek_chat e' key' msgs' \<noteq> Inl x')"
proof (intro conjI allI)
  show "deepseek_chat e key msgs = Inr ''Cannot connect to the API. Please try again later.''"
    using assms by (simp add: deepseek_chat_def deepseek_chat_try_def)
  show "deepseek_chat e' key' msgs' \<noteq> Inl x'" for e' key' msgs' x'
    by (rule deepseek_chat_never_raises)
qed

theorem deepseek_chat_fallback_on_exception_witness:
  "create failing_chat_env (completion_request ''deepseek-key'' [\<lparr>role = ''user'', content = ''Hi''\<rparr>])
     = Inl (OtherException ''Connection error.'')
   \<and> deepseek_chat failing_chat_env ''deepseek-key'' [\<lparr>role = ''user'', content = ''Hi''\<rparr>]
       = Inr ''Cannot connect to the API. Please try again later.''"
proof -
  have c: "create failing_chat_env
             (completion_request ''deepseek-key'' [\<lparr>role = ''user'', content = ''Hi''\<rparr>])
           = Inl (OtherException ''Connection error.'')"
    by (simp add: failing_chat_env_def example_env_def)
  show ?thesis
    using deepseek_chat_fallback_on_exception [OF c] c by simp
qed

text \<open>
  C5, as the code has it. When the call of the provider succeeds but the response is
  empty or has no choices, the \<^verbatim>\<open>ValueError\<close> with the message
  \<^verbatim>\<open>Invalid response from API\<close> is raised inside the \<^verbatim>\<open>try\<close> block and caught by the
  handler of the same function: the caller receives the fallback text as a normal result,
  not a failure.
\<close>

theorem deepseek_chat_no_choices_returns_fallback:
  assumes "create e (completion_request key msgs) = Inr r"
    and "r = NoResponse \<or> r = NoChoicesAttr \<or> r = Completion []"
  shows "deepseek_chat_try e key msgs = Inl (ValueError ''Invalid response from API'')
       \<and> deepseek_chat e key msgs = Inr ''Cannot connect to the API. Please try again later.''"
  using assms
  by (auto simp: deepseek_chat_def deepseek_chat_try_def)

theorem deepseek_chat_no_choices_returns_fallback_witness:
  "create no_choices_env (completion_request ''deepseek-key'' [\<lparr>role = ''user'', content = ''Hi''\<rparr>])
     = Inr (Completion [])
   \<and> deepseek_chat_try no_choices_env ''deepseek-key'' [\<lparr>role = ''user'', content = ''Hi''\<rparr>]
       = Inl (ValueError ''Invalid response from API'')
   \<and> deepseek_chat no_choices_env ''deepseek-key'' [\<lparr>role = ''user'', content = ''Hi''\<rparr>]
       = Inr ''Cannot connect to the API. Please try again later.''"
proof -
  have c: "create no_choices_env
             (completion_request ''deepseek-key'' [\<lparr>role = ''user'', content = ''Hi''\<rparr>])
           = Inr (Completion [])"
    by (simp add: no_choices_env_def example_env_def)
  have d: "Completion [] = NoResponse \<or> Completion [] = NoChoicesAttr
           \<or> Completion [] = Completion []"
    by simp
  show ?thesis
    using deepseek_chat_no_choices_returns_fallback [OF c d] c by simp
qed

text \<open>
  A completion without choices: the caller gets a text back, and no exception.
\<close>

theorem deepseek_chat_no_choices_counterexample:
  "deepseek_chat no_choices_env ''deepseek-key'' [\<lparr>role = ''user'', content = ''Hi''\<rparr>]
     = Inr ''Cannot connect to the API. Please try again later.''
   \<and> \<not> isl (deepseek_chat no_choices_env ''deepseek-key'' [\<lparr>role = ''user'', content = ''Hi''\<rparr>])"
  by (simp add: deepseek_chat_def deepseek_chat_try_def no_choices_env_def example_env_def)

subsection \<open>Session Orchestrator\<close>

text \<open>
  The active symbol is always one of \<open>STOCK_SYMBOLS\<close>: it starts as the default and is
  only ever replaced by what the select box returns.
\<close>

lemma session_defaults_symbol: "current_symbol session_defaults \<in> set STOCK_SYMBOLS"
  by (simp add: session_defaults_def DEFAULT_SYMBOL_def STOCK_SYMBOLS_def)

lemma handle_stock_selection_symbol:
  "new_symbol \<in> set STOCK_SYMBOLS \<Longrightarrow> handle_stock_selection e sec new_symbol st = Inr out \<Longrightarrow>
   current_symbol (state out) \<in> set STOCK_SYMBOLS"
  by (auto simp: handle_stock_selection_def Let_def split: if_splits sum.splits)

text \<open>
  C3. For every symbol change (the selected symbol differs from the active one), the
  history is emptied in that same transition, whether the fetch succeeds or fails: no
  turn present before the change survives it.
\<close>

theorem handle_stock_selection_clears_history:
  assumes "current_symbol st \<in> set STOCK_SYMBOLS"
    and "new_symbol \<noteq> current_symbol st"
  shows "\<exists>out. handle_stock_selection e sec new_symbol st = Inr out
           \<and> messages (state out) = []
           \<and> current_symbol (state out) = new_symbol
           \<and> rerun out"
  using assms
  by (auto simp: handle_stock_selection_def Let_def split: sum.splits)

theorem handle_stock_selection_clears_history_witness:
  "current_symbol example_session \<in> set STOCK_SYMBOLS
   \<and> ''MSFT'' \<noteq> current_symbol example_session
   \<and> messages example_session \<noteq> []
   \<and> (\<exists>out. handle_stock_selection example_env example_secrets ''MSFT'' example_session = Inr out
           \<and> messages (state out) = []
           \<and> current_symbol (state out) = ''MSFT''
           \<and> rerun out)"
proof -
  have a: "current_symbol example_session \<in> set STOCK_SYMBOLS"
    by (simp add: example_session_def STOCK_SYMBOLS_def)
  have b: "''MSFT'' \<noteq> current_symbol example_session"
    by (simp add: example_session_def)
  have c: "messages example_session \<noteq> []"
    by (simp add: example_session_def)
  show ?thesis
    using handle_stock_selection_clears_history [OF a b] a b c by blast
qed

text \<open>
  When the fetch for the new symbol fails, the handler only shows the error: the series
  of the previous symbol stays in the session under the new symbol.
\<close>

lemma handle_stock_selection_failed_fetch:
  assumes "current_symbol st \<in> set STOCK_SYMBOLS"
    and "new_symbol \<noteq> current_symbol st"
    and "get_stock_data e (stock_api_key sec) new_symbol = Inl x"
  shows "\<exists>out. handle_stock_selection e sec new_symbol st = Inr out
           \<and> current_symbol (state out) = new_symbol
           \<and> stock_data (state out) = stock_data st"
  using assms by (simp add: handle_stock_selection_def)

text \<open>
  C2. The claim is that after a symbol change whose fetch fails the cached series is
  empty. Here the session holds the series of \<^verbatim>\<open>AAPL\<close>, the user selects \<^verbatim>\<open>MSFT\<close> and
  the request times out: the resulting state has \<^verbatim>\<open>MSFT\<close> as its symbol and still the
  rows of \<^verbatim>\<open>AAPL\<close> as its series.
\<close>

theorem handle_stock_selection_failed_fetch_keeps_old_series:
  "handle_stock_selection failing_fetch_env example_secrets ''MSFT'' example_session
     = Inr \<lparr>state = \<lparr>messages = [], current_symbol = ''MSFT'', stock_data = example_frame,
                     pending_prompt = None\<rparr>,
            errors = [''Failed to load data: Failed to fetch stock data: Connection timed out''],
            rerun = True\<rparr>
   \<and> stock_data example_session = example_frame
   \<and> example_frame \<noteq> []"
  by (simp add: handle_stock_selection_def get_stock_data_def get_stock_data_try_def
      provider_response_def failing_fetch_env_def example_env_def example_session_def
      example_secrets_def STOCK_SYMBOLS_def example_frame_def)

subsection \<open>Conversation Context Builder\<close>

text \<open>
  C6, as the code has it. For every question, the message list handed to
  \<^verbatim>\<open>deepseek_chat\<close> is exactly one user turn, holding the context and the question; it
  does not depend on the session history, none of whose turns is included. The request
  sent to the provider is the system turn followed by that one turn.
\<close>

theorem chat_messages_single_turn:
  "chat_messages e st prompt
     = [\<lparr>role = ''user'',
         content = ''Stock data for '' @ current_symbol st @ '': ''
                   @ to_string e (take 5 (stock_data st))
                   @ [CHR 0x0A, CHR 0x0A] @ ''Question: '' @ prompt\<rparr>]
   \<and> chat_messages e (st\<lparr>messages := h\<rparr>) prompt = chat_messages e st prompt
   \<and> generate_chat_response e sec st prompt
       = deepseek_chat e (deepseek_api_key sec) (chat_messages e st prompt)
   \<and> request_messages (completion_request key (chat_messages e st prompt))
       = \<lparr>role = ''system'', content = SYSTEM_PROMPT\<rparr> # chat_messages e st prompt"
  by (simp add: chat_messages_def generate_chat_response_def completion_request_def)

text \<open>
  A session with two turns in its history: the list handed to \<^verbatim>\<open>deepseek_chat\<close> is the
  new turn alone, not the history followed by the new turn.
\<close>

theorem chat_messages_history_counterexample:
  "messages example_session
     = [\<lparr>role = ''user'', content = ''What is your role?''\<rparr>,
        \<lparr>role = ''assistant'', content = ''I am a stock market analyst.''\<rparr>]
   \<and> chat_messages example_env example_session ''What is the highest Close rate?''
     = [\<lparr>role = ''user'',
         content = ''Stock data for AAPL: +-'' @ [CHR 0x0A, CHR 0x0A]
                   @ ''Question: What is the highest Close rate?''\<rparr>]
   \<and> chat_messages example_env example_session ''What is the highest Close rate?''
     \<noteq> messages example_session
         @ [\<lparr>role = ''user'',
              content = ''Stock data for AAPL: +-'' @ [CHR 0x0A, CHR 0x0A]
                        @ ''Question: What is the highest Close rate?''\<rparr>]"
  by (simp add: chat_messages_def example_session_def example_env_def example_frame_def)

text \<open>
  Two rows that hold the same date and values and have the same column dtypes are the
  same row.
\<close>

lemma price_point_eqI:
  fixes p q :: price_point
  assumes "point_values p = point_values q" and "dtypes p = dtypes q"
  shows "p = q"
  using assms by (cases p; cases q) (simp add: point_values_def)

lemma rows_eqI:
  fixes ps qs :: dataframe
  assumes "map point_values ps = map point_values qs" and "map dtypes ps = map dtypes qs"
  shows "ps = qs"
  using assms
proof (induction ps arbitrary: qs)
  case Nil
  then show ?case by simp
next
  case (Cons p ps)
  then obtain q qs' where q: "qs = q # qs'"
    by (cases qs) auto
  with Cons.prems have "p = q"
    by (simp add: price_point_eqI)
  moreover from Cons q have "ps = qs'"
    by simp
  ultimately show ?case
    using q by simp
qed

text \<open>
  C7, as the code has it. For every cached series and question, the context text built for
  the model is a function of the symbol, the question, and the first 5 rows of the series
  as the frame holds them, that is their dates and values together with the dtype of each
  column: two series with the same symbol whose first 5 rows agree in dates, values and
  column dtypes yield the same text, whatever the rows from the sixth onward are.
\<close>

theorem chat_messages_first_five_rows_and_dtypes:
  assumes "current_symbol st1 = current_symbol st2"
    and "map point_values (take 5 (stock_data st1)) = map point_values (take 5 (stock_data st2))"
    and "map dtypes (take 5 (stock_data st1)) = map dtypes (take 5 (stock_data st2))"
  shows "chat_messages e st1 prompt = chat_messages e st2 prompt"
proof -
  have "take 5 (stock_data st1) = take 5 (stock_data st2)"
    using assms(2,3) by (rule rows_eqI)
  with assms(1) show ?thesis
    by (simp add: chat_messages_def)
qed

theorem chat_messages_first_five_rows_and_dtypes_witness:
  "current_symbol session_a = current_symbol session_b
   \<and> map point_values (take 5 (stock_data session_a))
       = map point_values (take 5 (stock_data session_b))
   \<and> map dtypes (take 5 (stock_data session_a)) = map dtypes (take 5 (stock_data session_b))
   \<and> stock_data session_a \<noteq> stock_data session_b
   \<and> chat_messages (week_env payload_a) session_a ''What is the lowest Open rate?''
       = chat_messages (week_env payload_a) session_b ''What is the lowest Open rate?''"
proof -
  have s: "current_symbol session_a = current_symbol session_b"
    by (simp add: session_a_def session_b_def)
  have v: "map point_values (take 5 (stock_data session_a))
             = map point_values (take 5 (stock_data session_b))"
    by (simp add: session_a_def session_b_def week_frame_def)
  have t: "map dtypes (take 5 (stock_data session_a)) = map dtypes (take 5 (stock_data session_b))"
    by (simp add: session_a_def session_b_def week_frame_def)
  have d: "stock_data session_a \<noteq> stock_data session_b"
    by (simp add: session_a_def session_b_def week_frame_def week_point_def)
  show ?thesis
    using chat_messages_first_five_rows_and_dtypes [OF s v t] s v t d by simp
qed

text \<open>
  The two payloads agree on their first five rows; the sixth row of the second holds the
  opening price \<^verbatim>\<open>30.5\<close>, so its \<^verbatim>\<open>Open\<close> column is \<^verbatim>\<open>float64\<close>. The two frames agree on
  the dates and values of their first five rows, and yet the text differs: the five
  opening prices print as \<^verbatim>\<open>10\<close> for the first frame and as \<^verbatim>\<open>10.0\<close> for the second.
\<close>

theorem chat_messages_dtype_counterexample:
  "take 5 payload_a = take 5 payload_b
   \<and> get_stock_data (week_env payload_a) ''fmp-key'' ''AAPL'' = Inr frame_a
   \<and> get_stock_data (week_env payload_b) ''fmp-key'' ''AAPL'' = Inr frame_b
   \<and> map point_values (take 5 frame_a) = map point_values (take 5 frame_b)
   \<and> content (hd (chat_messages (week_env payload_a)
                     (example_session\<lparr>stock_data := frame_a\<rparr>) ''What is the lowest Open rate?''))
       = ''Stock data for AAPL: '' @ [CHR 0x0A] @ ''10'' @ [CHR 0x0A] @ ''10'' @ [CHR 0x0A] @ ''10''
           @ [CHR 0x0A] @ ''10'' @ [CHR 0x0A] @ ''10''
           @ [CHR 0x0A, CHR 0x0A] @ ''Question: What is the lowest Open rate?''
   \<and> content (hd (chat_messages (week_env payload_a)
                     (example_session\<lparr>stock_data := frame_b\<rparr>) ''What is the lowest Open rate?''))
       = ''Stock data for AAPL: '' @ [CHR 0x0A] @ ''10.0'' @ [CHR 0x0A] @ ''10.0'' @ [CHR 0x0A]
           @ ''10.0'' @ [CHR 0x0A] @ ''10.0'' @ [CHR 0x0A] @ ''10.0''
           @ [CHR 0x0A, CHR 0x0A] @ ''Question: What is the lowest Open rate?''
   \<and> chat_messages (week_env payload_a)
         (example_session\<lparr>stock_data := frame_a\<rparr>) ''What is the lowest Open rate?''
       \<noteq> chat_messages (week_env payload_a)
           (example_session\<lparr>stock_data := frame_b\<rparr>) ''What is the lowest Open rate?''"
proof -
  have p: "take 5 payload_a = take 5 payload_b"
    by (simp add: payload_a_def payload_b_def week_head_def)
  have a: "get_stock_data (week_env payload_a) ''fmp-key'' ''AAPL'' = Inr frame_a"
    by (simp add: get_stock_data_def get_stock_data_try_def provider_response_def week_env_def
        example_env_def get_historical_def payload_a_def week_head_def week_row_def
        frame_a_def week_frame_def week_point_def rename_row_def infer_dtypes_def
        column_dtype_def int_columns_def)
  have b: "get_stock_data (week_env payload_b) ''fmp-key'' ''AAPL'' = Inr frame_b"
    by (simp add: get_stock_data_def get_stock_data_try_def provider_response_def week_env_def
        example_env_def get_historical_def payload_b_def week_head_def week_row_def
        frame_b_def week_frame_def week_point_def rename_row_def infer_dtypes_def
        column_dtype_def int_columns_def)
  have v: "map point_values (take 5 frame_a) = map point_values (take 5 frame_b)"
    by (simp add: frame_a_def frame_b_def week_frame_def week_point_def point_values_def)
  have ta: "content (hd (chat_messages (week_env payload_a)
                     (example_session\<lparr>stock_data := frame_a\<rparr>) ''What is the lowest Open rate?''))
       = ''Stock data for AAPL: '' @ [CHR 0x0A] @ ''10'' @ [CHR 0x0A] @ ''10'' @ [CHR 0x0A] @ ''10''
           @ [CHR 0x0A] @ ''10'' @ [CHR 0x0A] @ ''10''
           @ [CHR 0x0A, CHR 0x0A] @ ''Question: What is the lowest Open rate?''"
    by (simp add: chat_messages_def week_env_def example_env_def example_session_def
        frame_a_def week_frame_def week_point_def show_open_column_def show_cell_def
        decimal_def digit_def int_columns_def)
  have tb: "content (hd (chat_messages (week_env payload_a)
                     (example_session\<lparr>stock_data := frame_b\<rparr>) ''What is the lowest Open rate?''))
       = ''Stock data for AAPL: '' @ [CHR 0x0A] @ ''10.0'' @ [CHR 0x0A] @ ''10.0'' @ [CHR 0x0A]
           @ ''10.0'' @ [CHR 0x0A] @ ''10.0'' @ [CHR 0x0A] @ ''10.0''
           @ [CHR 0x0A, CHR 0x0A] @ ''Question: What is the lowest Open rate?''"
    by (simp add: chat_messages_def week_env_def example_env_def example_session_def
        frame_b_def week_frame_def week_point_def show_open_column_def show_cell_def
        decimal_def digit_def int_columns_def)
  have ne: "chat_messages (week_env payload_a)
         (example_session\<lparr>stock_data := frame_a\<rparr>) ''What is the lowest Open rate?''
       \<noteq> chat_messages (week_env payload_a)
           (example_session\<lparr>stock_data := frame_b\<rparr>) ''What is the lowest Open rate?''"
  proof
    assume "chat_messages (week_env payload_a)
         (example_session\<lparr>stock_data := frame_a\<rparr>) ''What is the lowest Open rate?''
       = chat_messages (week_env payload_a)
           (example_session\<lparr>stock_data := frame_b\<rparr>) ''What is the lowest Open rate?''"
    then have "content (hd (chat_messages (week_env payload_a)
                     (example_session\<lparr>stock_data := frame_a\<rparr>) ''What is the lowest Open rate?''))
       = content (hd (chat_messages (week_env payload_a)
                     (example_session\<lparr>stock_data := frame_b\<rparr>) ''What is the lowest Open rate?''))"
      by simp
    then show False
      unfolding ta tb by simp
  qed
  show ?thesis
    by (intro conjI p a b v ta tb ne)
qed

text \<open>
  A question appends the user turn and then the assistant turn; since \<^verbatim>\<open>deepseek_chat\<close>
  never raises, the assistant turn is always there, holding the fallback text when the
  call failed. The history handed on is not read by \<^verbatim>\<open>generate_chat_response\<close>.
\<close>

lemma process_prompt_appends_both_turns:
  "\<exists>response.
     generate_chat_response e sec st prompt = Inr response
     \<and> messages (state (process_prompt e sec prompt st))
         = messages st @ [\<lparr>role = ''user'', content = prompt\<rparr>,
                          \<lparr>role = ''assistant'', content = response\<rparr>]"
proof (cases "generate_chat_response e sec st prompt")
  case (Inl x)
  then show ?thesis
    by (simp add: generate_chat_response_def deepseek_chat_never_raises)
next
  case (Inr response)
  then have "generate_chat_response e sec
               (st\<lparr>messages := messages st @ [\<lparr>role = ''user'', content = prompt\<rparr>]\<rparr>) prompt
             = Inr response"
    by (simp add: generate_chat_response_def chat_messages_def)
  with Inr show ?thesis
    by (simp add: process_prompt_def Let_def)
qed

end
